theory Spec2Isabelle
  imports Main "HOL-Library.Word"
begin

unbundle bit_operations_syntax

section \<open>C strings and characters\<close>

text \<open>
  A C string is a \<open>char list\<close>; the terminating zero byte is not part of the list unless a
  definition says that it models a buffer. Reading \<open>*str\<close> at the end of the list gives the
  terminator.
\<close>

definition NUL :: char where "NUL = CHR 0x00"
definition BSLASH :: char where "BSLASH = CHR 0x5C"
definition DQUOTE :: char where "DQUOTE = CHR 0x22"
definition SQUOTE :: char where "SQUOTE = CHR 0x27"
definition NEWLINE :: char where "NEWLINE = CHR 0x0A"
definition SPACE :: char where "SPACE = CHR 0x20"
definition TAB :: char where "TAB = CHR 0x09"

text \<open>\<open>*str\<close> for a \<open>const char *\<close> walking a string: the head, or the terminator at the end.\<close>

definition deref :: "string \<Rightarrow> char" where
  "deref str = (case str of [] \<Rightarrow> NUL | c # _ \<Rightarrow> c)"

text \<open>The string a \<open>char *\<close> denotes: the bytes before the first zero byte.\<close>

definition c_str :: "string \<Rightarrow> string" where
  "c_str bytes = takeWhile (\<lambda>c. c \<noteq> NUL) bytes"

text \<open>\<open>isspace\<close> in the C locale: space, and the control characters 9 to 13.\<close>

definition isspace :: "char \<Rightarrow> bool" where
  "isspace c = (c = CHR 0x20 \<or> c = CHR 0x09 \<or> c = CHR 0x0A \<or> c = CHR 0x0B
                \<or> c = CHR 0x0C \<or> c = CHR 0x0D)"

section \<open>utils.c: unescape\<close>

text \<open>
  The places where \<open>unescape\<close> returns \<open>NULL\<close>. Allocation is taken to succeed.
  \<^item> \<open>UnterminatedEscape\<close>: a backslash followed by the terminator, outside quotes
    (``illegal escape sequence'') or inside them (``invalid escape sequence'');
  \<^item> \<open>InvalidOctalEscape\<close>, \<open>InvalidHexEscape\<close>: a digit is missing; nothing is printed;
  \<^item> \<open>UnterminatedQuote\<close>: the scan ends inside a quote.
  Each failure carries the text written to \<open>errf\<close>.
\<close>

datatype decode_error =
  UnterminatedEscape | InvalidOctalEscape | InvalidHexEscape | UnterminatedQuote

type_synonym unescape_result = "(decode_error \<times> string list) + string"

text \<open>The one-character cases of the \<open>switch\<close>, with its \<open>default\<close> (the character itself).\<close>

definition escape_char :: "char \<Rightarrow> char" where
  "escape_char cur =
    (if cur = CHR ''n'' then CHR 0x0A
     else if cur = CHR ''a'' then CHR 0x07
     else if cur = CHR ''b'' then CHR 0x08
     else if cur = CHR ''r'' then CHR 0x0D
     else if cur = BSLASH then BSLASH
     else if cur = CHR ''f'' then CHR 0x0C
     else if cur = CHR ''v'' then CHR 0x0B
     else if cur = SQUOTE then SQUOTE
     else if cur = DQUOTE then DQUOTE
     else if cur = CHR ''?'' then CHR ''?''
     else if cur = CHR ''*'' then CHR ''*''
     else if cur = CHR ''$'' then CHR ''$''
     else if cur = CHR ''t'' then CHR 0x09
     else if cur = CHR '' '' then CHR '' ''
     else if cur = CHR ''!'' then CHR ''!''
     else cur)"

definition is_octal :: "char \<Rightarrow> bool" where
  "is_octal cur = (\<not> ((of_char cur :: nat) < 48 \<or> (of_char cur :: nat) > 55))"

text \<open>\<open>cur - '0'\<close> and the two letter ranges of a hex digit; \<open>None\<close> is the \<open>else\<close> branch.\<close>

definition hex_value :: "char \<Rightarrow> int option" where
  "hex_value cur =
    (let c = (of_char cur :: int) in
     if c \<ge> 48 \<and> c \<le> 57 then Some (c - 48)
     else if c \<ge> 97 \<and> c \<le> 102 then Some (c - 97 + 10)
     else if c \<ge> 65 \<and> c \<le> 70 then Some (c - 65 + 10)
     else None)"

text \<open>
  One round of \<open>while(*str)\<close> in \<open>unescape\<close>, entered with \<open>*str\<close> not zero.
  \<open>str\<close> is the rest of the input, \<open>quoted\<close> the open quote character (zero outside
  quotes), \<open>out\<close> the bytes written through \<open>unesc\<close> so far. \<open>Inl\<close> is a
  \<open>return NULL\<close>, \<open>Inr\<close> the three variables at the next test of the loop.
\<close>

definition unescape_body ::
  "string \<Rightarrow> char \<Rightarrow> string \<Rightarrow> (decode_error \<times> string list) + (string \<times> char \<times> string)" where
  "unescape_body str quoted out =
    (let cur = deref str; str1 = tl str in
     if quoted = NUL \<and> cur = BSLASH then
       (let cur1 = deref str1; str2 = tl str1 in
        if cur1 = NUL then
          Inl (UnterminatedEscape, [''shell error: illegal escape sequence''])
        else if is_octal cur1 then
          (let tmp = push_bit 6 ((of_char cur1 :: int) - 48);
               cur2 = deref str2; str3 = tl str2 in
           if \<not> is_octal cur2 then Inl (InvalidOctalEscape, [])
           else
             let tmp = tmp OR push_bit 3 ((of_char cur2 :: int) - 48);
                 cur3 = deref str3; str4 = tl str3 in
             if \<not> is_octal cur3 then Inl (InvalidOctalEscape, [])
             else
               let tmp = tmp OR ((of_char cur3 :: int) - 48) in
               Inr (str4, quoted, out @ [char_of tmp]))
        else if cur1 = CHR ''x'' \<or> cur1 = CHR ''X'' then
          (let cur2 = deref str2; str3 = tl str2 in
           case hex_value cur2 of
             None \<Rightarrow> Inl (InvalidHexEscape, [])
           | Some hi \<Rightarrow>
               let tmp = push_bit 4 hi; cur3 = deref str3; str4 = tl str3 in
               (case hex_value cur3 of
                  None \<Rightarrow> Inl (InvalidHexEscape, [])
                | Some lo \<Rightarrow> Inr (str4, quoted, out @ [char_of (tmp OR lo)])))
        else Inr (str2, quoted, out @ [escape_char cur1]))
     else if quoted \<noteq> NUL \<and> cur = BSLASH then
       (let cur1 = deref str1; str2 = tl str1 in
        if cur1 = NUL then
          Inl (UnterminatedEscape, [''shell error: invalid escape sequence''])
        else if cur1 \<noteq> quoted then Inr (str2, quoted, out @ [BSLASH, cur1])
        else Inr (str2, quoted, out @ [cur1]))
     else if quoted = NUL \<and> (cur = SQUOTE \<or> cur = DQUOTE) then Inr (str1, cur, out)
     else if quoted \<noteq> NUL \<and> cur = quoted then Inr (str1, NUL, out)
     else Inr (str1, quoted, out @ [cur]))"

lemma deref_not_NUL: "deref s \<noteq> NUL \<Longrightarrow> length (c_str s) = Suc (length (c_str (tl s)))"
  by (cases s) (auto simp: deref_def c_str_def)

lemma deref_not_NUL_tl: "deref s \<noteq> NUL \<Longrightarrow> length (tl s) < length s"
  by (cases s) (auto simp: deref_def)

lemma is_octal_not_NUL: "is_octal c \<Longrightarrow> c \<noteq> NUL"
  by (auto simp: is_octal_def NUL_def)

lemma hex_value_not_NUL: "hex_value c = Some v \<Longrightarrow> c \<noteq> NUL"
  by (auto simp: hex_value_def NUL_def Let_def split: if_splits)

lemma unescape_body_shorter:
  assumes "deref str \<noteq> NUL" and "unescape_body str quoted out = Inr (str', quoted', out')"
  shows "length str' < length str"
proof -
  have t1: "length (tl str) < length str"
    using assms(1) by (rule deref_not_NUL_tl)
  have t2: "length (tl (tl str)) < length str"
    using t1 by (cases "tl str") auto
  have t3: "length (tl (tl (tl str))) < length str"
    using t2 by (cases "tl (tl str)") auto
  have t4: "length (tl (tl (tl (tl str)))) < length str"
    using t3 by (cases "tl (tl (tl str))") auto
  have "str' \<in> {tl str, tl (tl str), tl (tl (tl (tl str)))}"
    using assms(2)
    by (simp add: unescape_body_def Let_def split: if_splits option.splits)
  with t1 t2 t4 show ?thesis by auto
qed

text \<open>
  The scan of \<open>unescape\<close>: the test of the loop, its body, and the test for an open quote
  after it.
\<close>

function unescape_loop :: "string \<Rightarrow> char \<Rightarrow> string \<Rightarrow> unescape_result" where
  "unescape_loop str quoted out =
    (if deref str = NUL then
       (if quoted \<noteq> NUL then Inl (UnterminatedQuote, [''shell error: unterminated quote''])
        else Inr out)
     else
       (case unescape_body str quoted out of
          Inl e \<Rightarrow> Inl e
        | Inr (str', quoted', out') \<Rightarrow> unescape_loop str' quoted' out'))"
  by pat_completeness auto
termination
  by (relation "measure (\<lambda>(str, quoted, out). length str)")
     (auto dest: unescape_body_shorter)

declare unescape_loop.simps [simp del]

text \<open>
  \<open>unescape(str, errf)\<close>: the bytes written before the final terminator, or the failure.
  The returned \<open>char *\<close> denotes \<open>c_str\<close> of these bytes.
\<close>

definition unescape :: "string \<Rightarrow> unescape_result" where
  "unescape str = unescape_loop str NUL []"


section \<open>Memory\<close>

text \<open>
  What C leaves undefined is written out. A load through a stray pointer or index has no
  value, so it ends the run of the model with the fault (\<open>Inl\<close>), also when the value
  loaded is only handed to \<open>free\<close>. A store through a stray index, and a \<open>free\<close> of a
  block that is already freed, hit no object of the model: they are recorded in a list of
  violations and the run goes on, as the statements that follow them in the source would.
\<close>

datatype fault =
  OutOfBounds int      \<comment> \<open>index or offset outside the object\<close>
  | NullPointer        \<comment> \<open>load through \<open>NULL\<close>\<close>
  | Uninitialised      \<comment> \<open>use of a pointer never stored\<close>
  | UseAfterFree nat   \<comment> \<open>load from a freed block\<close>
  | DoubleFree nat     \<comment> \<open>\<open>free\<close> of a freed block\<close>

text \<open>An element of a \<open>char **\<close> array: never stored, \<open>NULL\<close>, or an address.\<close>

datatype slot = Unset | NullPtr | Ptr nat

text \<open>\<open>arr[i] = v\<close> on an array of known size.\<close>

definition store :: "'a list \<Rightarrow> int \<Rightarrow> 'a \<Rightarrow> fault list \<Rightarrow> 'a list \<times> fault list" where
  "store arr i v viol =
    (if 0 \<le> i \<and> i < int (length arr) then (arr[nat i := v], viol)
     else (arr, viol @ [OutOfBounds i]))"

section \<open>utils.c: parse_quoted_tokens and getTokens\<close>

text \<open>
  The string is a buffer \<open>b\<close> that holds its terminator; the pointer \<open>p\<close> is an offset
  into it, and so is each token stored in the array. \<open>skip_blanks\<close> is
  \<open>while (*p && (*p == ' ' || *p == '\t')) p++\<close>.
\<close>

function skip_blanks :: "string \<Rightarrow> nat \<Rightarrow> fault + nat" where
  "skip_blanks b p =
    (if p \<ge> length b then Inl (OutOfBounds (int p))
     else if b ! p \<noteq> NUL \<and> (b ! p = SPACE \<or> b ! p = TAB) then skip_blanks b (Suc p)
     else Inr p)"
  by pat_completeness auto
termination
  by (relation "measure (\<lambda>(b, p). length b - p)") auto

declare skip_blanks.simps [simp del]

lemma skip_blanks_range: "skip_blanks b p = Inr p' \<Longrightarrow> p \<le> p' \<and> p' < length b"
proof (induction b p rule: skip_blanks.induct)
  case (1 b p)
  from "1.prems" show ?case
    by (subst (asm) skip_blanks.simps) (auto split: if_splits dest!: "1.IH"[rotated -1])
qed

text \<open>
  The variables of \<open>parse_quoted_tokens\<close>: the buffer, the array \<open>tokens\<close>,
  \<open>token_count\<close>, \<open>in_quote\<close>, \<open>p\<close>, and the violations so far.
\<close>

type_synonym pqt_state = "string \<times> slot list \<times> nat \<times> bool \<times> nat \<times> fault list"

text \<open>
  One round of \<open>while (*p && token_count < max_tokens)\<close>. With \<open>in_quote\<close> set, the
  test \<open>!in_quote && ...\<close> does not load \<open>*p\<close>.
\<close>

definition pqt_body :: "pqt_state \<Rightarrow> fault + pqt_state" where
  "pqt_body st =
    (case st of (b, tokens, token_count, in_quote, p, viol) \<Rightarrow>
     let (in_quote1, p1) =
           (if b ! p = DQUOTE then (\<not> in_quote, Suc p) else (in_quote, p)) in
     if in_quote1 then Inr (b, tokens, token_count, in_quote1, Suc p1, viol)
     else if p1 \<ge> length b then Inl (OutOfBounds (int p1))
     else if b ! p1 = SPACE \<or> b ! p1 = TAB then
       (let b1 = b[p1 := NUL] in
        case skip_blanks b1 (Suc p1) of
          Inl f \<Rightarrow> Inl f
        | Inr p2 \<Rightarrow>
            if b1 ! p2 \<noteq> NUL then
              (let (tokens1, viol1) = store tokens (int token_count) (Ptr p2) viol in
               Inr (b1, tokens1, Suc token_count, in_quote1, p2, viol1))
            else Inr (b1, tokens, token_count, in_quote1, p2, viol))
     else Inr (b, tokens, token_count, in_quote1, Suc p1, viol))"

lemma pqt_body_advances:
  assumes "pqt_body (b, tokens, token_count, in_quote, p, viol)
             = Inr (b', tokens', token_count', in_quote', p', viol')"
  shows "p < p' \<and> length b' = length b"
  using assms
  by (auto simp: pqt_body_def Let_def split: if_splits sum.splits prod.splits
      dest!: skip_blanks_range)

function pqt_loop :: "nat \<Rightarrow> pqt_state \<Rightarrow> fault + pqt_state" where
  "pqt_loop max_tokens (b, tokens, token_count, in_quote, p, viol) =
    (if p \<ge> length b then Inl (OutOfBounds (int p))
     else if b ! p \<noteq> NUL \<and> token_count < max_tokens then
       (case pqt_body (b, tokens, token_count, in_quote, p, viol) of
          Inl f \<Rightarrow> Inl f
        | Inr st \<Rightarrow> pqt_loop max_tokens st)
     else Inr (b, tokens, token_count, in_quote, p, viol))"
  by pat_completeness auto
termination
proof (relation "measure (\<lambda>(m, b, tokens, token_count, in_quote, p, viol). length b - p)")
  show "wf (measure (\<lambda>(m, b, tokens, token_count, in_quote, p, viol). length b - p))"
    by simp
next
  fix max_tokens :: nat and b tokens token_count in_quote p viol and st :: pqt_state
  assume a: "\<not> length b \<le> p"
    and s: "pqt_body (b, tokens, token_count, in_quote, p, viol) = Inr st"
  obtain b' tokens' token_count' in_quote' p' viol'
    where st: "st = (b', tokens', token_count', in_quote', p', viol')"
    by (cases st)
  from pqt_body_advances[OF s[unfolded st]] a
  show "((max_tokens, st), max_tokens, b, tokens, token_count, in_quote, p, viol)
          \<in> measure (\<lambda>(m, b, tokens, token_count, in_quote, p, viol). length b - p)"
    by (simp add: st) arith
qed

declare pqt_loop.simps [simp del]

text \<open>\<open>strchr(b + q, c)\<close> for a character \<open>c\<close> that is not zero.\<close>

function strchr :: "string \<Rightarrow> nat \<Rightarrow> char \<Rightarrow> fault + nat option" where
  "strchr b q c =
    (if q \<ge> length b then Inl (OutOfBounds (int q))
     else if b ! q = c then Inr (Some q)
     else if b ! q = NUL then Inr None
     else strchr b (Suc q) c)"
  by pat_completeness auto
termination
  by (relation "measure (\<lambda>(b, q, c). length b - q)") auto

declare strchr.simps [simp del]

text \<open>
  \<open>parse_quoted_tokens(str, tokens, max_tokens)\<close> in three parts. \<open>pqt_start\<close>: after
  the leading blanks, \<open>if (*p) tokens[token_count++] = p\<close>. \<open>pqt_finish\<close>: the code after
  the loop, which ends the last token at its first quote character when the scan stopped
  inside a quote. The result is the count returned, with the buffer and the array as the
  call leaves them.
\<close>

definition pqt_start :: "string \<Rightarrow> slot list \<Rightarrow> nat \<Rightarrow> pqt_state" where
  "pqt_start str tokens p =
    (if str ! p \<noteq> NUL then
       (let (tokens1, viol1) = store tokens 0 (Ptr p) [] in
        (str, tokens1, Suc 0, False, p, viol1))
     else (str, tokens, 0, False, p, []))"

definition pqt_finish :: "pqt_state \<Rightarrow> fault + (nat \<times> string \<times> slot list \<times> fault list)" where
  "pqt_finish st =
    (case st of (b, tokens, token_count, in_quote, p, viol) \<Rightarrow>
     if in_quote then
       (if token_count = 0 \<or> token_count - 1 \<ge> length tokens
        then Inl (OutOfBounds (int token_count - 1))
        else case tokens ! (token_count - 1) of
          Unset \<Rightarrow> Inl Uninitialised
        | NullPtr \<Rightarrow> Inl NullPointer
        | Ptr q \<Rightarrow>
            (case strchr b q DQUOTE of
               Inl f \<Rightarrow> Inl f
             | Inr None \<Rightarrow> Inr (token_count, b, tokens, viol)
             | Inr (Some end_quote) \<Rightarrow> Inr (token_count, b[end_quote := NUL], tokens, viol)))
     else Inr (token_count, b, tokens, viol))"

definition parse_quoted_tokens ::
  "string \<Rightarrow> slot list \<Rightarrow> nat \<Rightarrow> fault + (nat \<times> string \<times> slot list \<times> fault list)" where
  "parse_quoted_tokens str tokens max_tokens =
    (case skip_blanks str 0 of
       Inl f \<Rightarrow> Inl f
     | Inr p \<Rightarrow>
         (case pqt_loop max_tokens (pqt_start str tokens p) of
            Inl f \<Rightarrow> Inl f
          | Inr st \<Rightarrow> pqt_finish st))"

definition TOKEN_LIMIT :: nat where "TOKEN_LIMIT = 1000"

text \<open>
  \<open>getTokens(string, numTokens)\<close> on a buffer that holds its terminator: the array
  returned, \<open>*numTokens\<close>, the buffer as modified, and the violations.
\<close>

definition getTokens :: "string \<Rightarrow> fault + (slot list \<times> nat \<times> string \<times> fault list)" where
  "getTokens string =
    (let result = replicate TOKEN_LIMIT Unset in
     case parse_quoted_tokens string result TOKEN_LIMIT of
       Inl f \<Rightarrow> Inl f
     | Inr (numTokens, b, result1, viol) \<Rightarrow>
         (let (result2, viol2) = store result1 (int numTokens) NullPtr viol in
          Inr (result2, numTokens, b, viol2)))"

text \<open>The string a token points to, and the first \<open>n\<close> tokens of an array as strings.\<close>

definition token_string :: "string \<Rightarrow> slot \<Rightarrow> string" where
  "token_string b s = (case s of Ptr q \<Rightarrow> c_str (drop q b) | _ \<Rightarrow> [])"

definition token_strings :: "slot list \<Rightarrow> nat \<Rightarrow> string \<Rightarrow> string list" where
  "token_strings tokens n b = map (token_string b) (take n tokens)"





section \<open>utils.c: trim\<close>

text \<open>
  \<open>trimLeading\<close> and \<open>trimTrailing\<close> on a string; \<open>trim\<close> on a \<open>char *\<close> that may be
  \<open>NULL\<close> (\<open>None\<close>): \<open>trimLeading\<close> loads \<open>s[0]\<close> with no test of \<open>s\<close>.
\<close>

definition trimLeading :: "string \<Rightarrow> string" where
  "trimLeading s = dropWhile isspace s"

definition trimTrailing :: "string \<Rightarrow> string" where
  "trimTrailing s = rev (dropWhile isspace (rev s))"

definition trim :: "string option \<Rightarrow> fault + string" where
  "trim s = (case s of None \<Rightarrow> Inl NullPointer | Some t \<Rightarrow> Inr (trimTrailing (trimLeading t)))"

section \<open>shell.c: the world of the shell\<close>

text \<open>
  What the shell reads and writes. \<open>sys\<close> is what the system answers: the prompt string
  built at startup, \<open>fopen(path, "r")\<close> for the files \<open>procread\<close> opens, whether \<open>fork\<close>
  succeeds, and the two process ids. \<open>world\<close> is what the shell has written: standard
  output and standard error (one element for each write of the parent process), the
  history file (\<open>None\<close> when it cannot be opened), the commands handed to a forked child,
  and the violations recorded. A line written to standard error is given without the
  newline that ends it.
\<close>

record sys =
  sys_prompt :: string
  sys_file :: "string \<Rightarrow> string option"
  sys_fork :: bool
  sys_pid :: nat
  sys_child :: nat

record world =
  w_out :: "string list"
  w_err :: "string list"
  w_history :: "string option"
  w_forked :: "string list"
  w_viol :: "fault list"

definition put_out :: "string list \<Rightarrow> world \<Rightarrow> world" where
  "put_out ls w = w\<lparr>w_out := w_out w @ ls\<rparr>"

definition put_err :: "string list \<Rightarrow> world \<Rightarrow> world" where
  "put_err ls w = w\<lparr>w_err := w_err w @ ls\<rparr>"

definition put_viol :: "fault list \<Rightarrow> world \<Rightarrow> world" where
  "put_viol vs w = w\<lparr>w_viol := w_viol w @ vs\<rparr>"

text \<open>
  The strings that successive calls of \<open>fgets(buffer, sz, fp)\<close> deliver from a file:
  each holds at most \<open>sz - 1\<close> bytes and ends after the first newline. \<open>cur\<close> is the
  part of the current one already read.
\<close>

fun file_chunks :: "nat \<Rightarrow> string \<Rightarrow> string \<Rightarrow> string list" where
  "file_chunks sz cur [] = (if cur = [] then [] else [cur])"
| "file_chunks sz cur (c # cs) =
    (let cur1 = cur @ [c] in
     if c = NEWLINE \<or> Suc (length cur1) \<ge> sz then cur1 # file_chunks sz [] cs
     else file_chunks sz cur1 cs)"

section \<open>shell.c: the history\<close>

definition FILE_BUFFER_SIZE :: nat where "FILE_BUFFER_SIZE = 8192"

text \<open>\<open>appendHistory(entry)\<close> for an entry that is not \<open>NULL\<close>: \<open>fputs\<close> with no newline added.\<close>

definition appendHistory :: "string \<Rightarrow> world \<Rightarrow> world" where
  "appendHistory entry w =
    (case w_history w of
       None \<Rightarrow> put_err [''writeHistory: ERROR: Failed to open command history file '.421history'!''] w
     | Some content \<Rightarrow> w\<lparr>w_history := Some (content @ c_str entry)\<rparr>)"

text \<open>
  The blocks that \<open>readHistory\<close> allocates for the entries: the string of each block and
  whether the block is live. An entry of the result array is the number of its block.
\<close>

type_synonym heap = "(string \<times> bool) list"

definition heap_free :: "heap \<Rightarrow> nat \<Rightarrow> fault list \<Rightarrow> heap \<times> fault list" where
  "heap_free h a viol =
    (if a < length h then
       (if snd (h ! a) then (h[a := (fst (h ! a), False)], viol)
        else (h, viol @ [DoubleFree a]))
     else (h, viol @ [OutOfBounds (int a)]))"

text \<open>
  \<open>free(arr[i])\<close>: the element is loaded first, which ends the run when the index is
  outside the array or the element was never stored; \<open>free(NULL)\<close> does nothing.
\<close>

definition free_at ::
  "slot list \<Rightarrow> int \<Rightarrow> heap \<Rightarrow> fault list \<Rightarrow> fault + (heap \<times> fault list)" where
  "free_at arr i h viol =
    (if 0 \<le> i \<and> i < int (length arr) then
       (case arr ! nat i of
          Ptr a \<Rightarrow> Inr (heap_free h a viol)
        | NullPtr \<Rightarrow> Inr (h, viol)
        | Unset \<Rightarrow> Inl Uninitialised)
     else Inl (OutOfBounds i))"

text \<open>
  The variables of \<open>readHistory\<close>: \<open>result\<close>, \<open>numAllocated\<close>, \<open>numRead\<close>, the blocks,
  the violations.
\<close>

type_synonym hist_state = "slot list \<times> nat \<times> int \<times> heap \<times> fault list"

text \<open>
  One round of \<open>while (fgets(...) != NULL)\<close>, for the string \<open>buffer\<close> that \<open>fgets\<close>
  delivered: \<open>realloc\<close> to \<open>numAllocated\<close> elements when the array is full, then a
  block with the trimmed copy of the line.
\<close>

definition read_line :: "nat \<Rightarrow> hist_state \<Rightarrow> string \<Rightarrow> hist_state" where
  "read_line numEntries st buffer =
    (case st of (result, numAllocated, numRead, h, viol) \<Rightarrow>
     let (result1, numAllocated1) =
           (if numRead = int numAllocated then
              (let n = numAllocated + numEntries in
               (take n result @ replicate (n - length result) Unset, n))
            else (result, numAllocated));
         h1 = h @ [(trimTrailing (c_str buffer), True)];
         (result2, viol1) = store result1 numRead (Ptr (length h)) viol
     in (result2, numAllocated1, numRead + 1, h1, viol1))"

text \<open>
  The strings \<open>fgets\<close> delivers from the history file, and the variables after the
  \<open>while\<close> loop has read them all into an array of \<open>numEntries + 1\<close> elements.
\<close>

definition history_lines :: "string \<Rightarrow> string list" where
  "history_lines content = file_chunks FILE_BUFFER_SIZE [] content"

definition read_all :: "nat \<Rightarrow> string \<Rightarrow> hist_state" where
  "read_all numEntries content =
    foldl (read_line numEntries) (replicate (numEntries + 1) Unset, numEntries, 0, [], [])
      (history_lines content)"

text \<open>\<open>numRead--; free(result[numRead]); result[numRead] = NULL;\<close>\<close>

definition remove_current :: "hist_state \<Rightarrow> fault + hist_state" where
  "remove_current st =
    (case st of (result, numAllocated, numRead, h, viol) \<Rightarrow>
     let numRead1 = numRead - 1 in
     case free_at result numRead1 h viol of
       Inl f \<Rightarrow> Inl f
     | Inr (h1, viol1) \<Rightarrow>
         (let (result1, viol2) = store result numRead1 NullPtr viol1
          in Inr (result1, numAllocated, numRead1, h1, viol2)))"

text \<open>
  \<open>for (int i = 0; i < numRead; i++)\<close> of the limiting step, from \<open>i\<close> on. The loads of
  \<open>result[i]\<close> and \<open>result[i + adjust]\<close> end the run when they are outside the array.
\<close>

function limit_loop ::
  "nat \<Rightarrow> nat \<Rightarrow> nat \<Rightarrow> nat \<Rightarrow> slot list \<Rightarrow> heap \<Rightarrow> fault list
     \<Rightarrow> fault + (slot list \<times> heap \<times> fault list)" where
  "limit_loop numEntries adjust numRead i result h viol =
    (if i < numRead then
       (if i < numEntries then
          (case free_at result (int i) h viol of
             Inl f \<Rightarrow> Inl f
           | Inr (h1, viol1) \<Rightarrow>
               if i + adjust \<ge> length result then Inl (OutOfBounds (int (i + adjust)))
               else
                 let (result1, viol2) = store result (int i) (result ! (i + adjust)) viol1 in
                 limit_loop numEntries adjust numRead (Suc i) result1 h1 viol2)
        else
          (let (result1, viol1) = store result (int i) NullPtr viol in
           limit_loop numEntries adjust numRead (Suc i) result1 h viol1))
     else Inr (result, h, viol))"
  by pat_completeness auto
termination
  by (relation "measure (\<lambda>(numEntries, adjust, numRead, i, result, h, viol). numRead - i)")
     auto

declare limit_loop.simps [simp del]

text \<open>
  What \<open>readHistory(numEntries, numReturned)\<close> leaves: the array returned (\<open>None\<close> for
  \<open>NULL\<close>), \<open>*numReturned\<close> (\<open>None\<close> when nothing was stored there), the blocks, the
  violations and the lines written to standard error.
\<close>

record history_read =
  hr_entries :: "slot list option"
  hr_count :: "int option"
  hr_heap :: heap
  hr_viol :: "fault list"
  hr_err :: "string list"

definition readHistory :: "nat \<Rightarrow> string option \<Rightarrow> fault + history_read" where
  "readHistory numEntries file =
    (let result = replicate (numEntries + 1) Unset in
     if numEntries > 0 then
       (case file of
          None \<Rightarrow>
            Inr \<lparr>hr_entries = None, hr_count = None, hr_heap = [], hr_viol = [],
                 hr_err = [''readHistory: ERROR: Failed to open command history file '.421history'!'']\<rparr>
        | Some content \<Rightarrow>
            (case remove_current (read_all numEntries content) of
               Inl f \<Rightarrow> Inl f
             | Inr (result1, numAllocated, numRead, h, viol) \<Rightarrow>
                 if numRead > int numEntries then
                   (case limit_loop numEntries (nat numRead - numEntries) (nat numRead) 0
                           result1 h viol of
                      Inl f \<Rightarrow> Inl f
                    | Inr (result2, h2, viol2) \<Rightarrow>
                        Inr \<lparr>hr_entries = Some result2, hr_count = Some (int numEntries),
                             hr_heap = h2, hr_viol = viol2, hr_err = []\<rparr>)
                 else
                   Inr \<lparr>hr_entries = Some result1, hr_count = Some numRead,
                        hr_heap = h, hr_viol = viol, hr_err = []\<rparr>))
     else
       Inr \<lparr>hr_entries = Some result, hr_count = None, hr_heap = [], hr_viol = [],
            hr_err = []\<rparr>)"

text \<open>
  \<open>printHistory(history, numEntries)\<close> for an array that is not \<open>NULL\<close>: the strings passed
  to \<open>printf("%s\n", ...)\<close>. The load of a string from a freed block ends the run.
\<close>

definition load_entry :: "slot list \<Rightarrow> heap \<Rightarrow> nat \<Rightarrow> fault + string" where
  "load_entry history h i =
    (if i \<ge> length history then Inl (OutOfBounds (int i))
     else case history ! i of
       Unset \<Rightarrow> Inl Uninitialised
     | NullPtr \<Rightarrow> Inl NullPointer
     | Ptr a \<Rightarrow>
         if a \<ge> length h then Inl (OutOfBounds (int a))
         else if snd (h ! a) then Inr (fst (h ! a))
         else Inl (UseAfterFree a))"

fun print_entries :: "slot list \<Rightarrow> heap \<Rightarrow> nat list \<Rightarrow> fault + string list" where
  "print_entries history h [] = Inr []"
| "print_entries history h (i # is) =
    (case load_entry history h i of
       Inl f \<Rightarrow> Inl f
     | Inr s \<Rightarrow>
         (case print_entries history h is of
            Inl f \<Rightarrow> Inl f
          | Inr ls \<Rightarrow> Inr ((s @ [NEWLINE]) # ls)))"

definition printHistory :: "slot list \<Rightarrow> heap \<Rightarrow> int \<Rightarrow> fault + string list" where
  "printHistory history h numEntries = print_entries history h [0..<nat numEntries]"

text \<open>
  \<open>deallocateHistory(entries, numEntries)\<close> for an array that is not \<open>NULL\<close>:
  \<open>free(entries[i])\<close> for every entry that is not \<open>NULL\<close>.
\<close>

fun free_entries ::
  "slot list \<Rightarrow> nat list \<Rightarrow> heap \<Rightarrow> fault list \<Rightarrow> fault + (heap \<times> fault list)" where
  "free_entries entries [] h viol = Inr (h, viol)"
| "free_entries entries (i # is) h viol =
    (case free_at entries (int i) h viol of
       Inl f \<Rightarrow> Inl f
     | Inr (h1, viol1) \<Rightarrow> free_entries entries is h1 viol1)"

definition deallocateHistory ::
  "slot list \<Rightarrow> heap \<Rightarrow> int \<Rightarrow> fault list \<Rightarrow> fault + (heap \<times> fault list)" where
  "deallocateHistory entries h numEntries viol =
    free_entries entries [0..<nat numEntries] h viol"

section \<open>shell.c: the commands\<close>

text \<open>\<open>getProgramName(command)\<close> for a command that is not \<open>NULL\<close>.\<close>

definition getProgramName :: "string \<Rightarrow> string" where
  "getProgramName command = takeWhile (\<lambda>c. \<not> isspace c) command"

text \<open>
  \<open>getArgs(command, numArgs)\<close> for a command that is not \<open>NULL\<close>: the tokens of a copy of
  the command in a buffer of \<open>strlen(command) + 1\<close> bytes.
\<close>

definition getArgs :: "string \<Rightarrow> fault + (slot list \<times> nat \<times> string \<times> fault list)" where
  "getArgs command = getTokens (command @ [NUL])"

text \<open>\<open>args[i]\<close> as the \<open>char *\<close> handed on: \<open>None\<close> for \<open>NULL\<close>.\<close>

definition arg_string :: "slot list \<Rightarrow> string \<Rightarrow> nat \<Rightarrow> fault + string option" where
  "arg_string args b i =
    (if i \<ge> length args then Inl (OutOfBounds (int i))
     else case args ! i of
       Unset \<Rightarrow> Inl Uninitialised
     | NullPtr \<Rightarrow> Inr None
     | Ptr q \<Rightarrow> Inr (Some (c_str (drop q b))))"

text \<open>
  \<open>processProcread(fileName)\<close>. The path goes into \<open>char filename[256]\<close>; a longer one is
  stored past the end of the array. \<open>perror\<close> adds the text of \<open>errno\<close> to its line, which
  is left out here.
\<close>

definition processProcread :: "sys \<Rightarrow> string option \<Rightarrow> world \<Rightarrow> int \<times> world" where
  "processProcread sy fileName w =
    (case fileName of
       None \<Rightarrow> (1, put_err [''ERROR: file name missing''] w)
     | Some name \<Rightarrow>
         if length name = 0 then (1, put_err [''ERROR: file name missing''] w)
         else if name ! 0 = CHR ''/'' then
           (1, put_err [''ERROR: only relative file paths are supported''] w)
         else
           let filename = (if take 5 name = ''proc/'' then name else ''/proc/'' @ name);
               w1 = (if length filename + 1 > 256 then put_viol [OutOfBounds 256] w else w)
           in case sys_file sy filename of
                None \<Rightarrow> (1, put_err [''ERROR: Process file not found''] w1)
              | Some content \<Rightarrow> (0, put_out (map c_str (file_chunks 1024 [] content)) w1))"

text \<open>Decimal digits of a number, for \<open>%d\<close>.\<close>

fun decimal :: "nat \<Rightarrow> string" where
  "decimal n = (if n < 10 then [char_of (48 + n)]
                else decimal (n div 10) @ [char_of (48 + n mod 10)])"

declare decimal.simps [simp del]

text \<open>
  \<open>processSystemCommand(command)\<close> as the parent process runs it. A successful \<open>fork\<close>
  hands the command to the child, which is recorded in \<open>w_forked\<close>; the parent reports
  and waits. What the child does with the command is \<open>child_execvp\<close>.
\<close>

definition processSystemCommand :: "sys \<Rightarrow> string \<Rightarrow> world \<Rightarrow> int \<times> world" where
  "processSystemCommand sy command w =
    (if \<not> sys_fork sy then (1, put_err [''processSystemCommand: fork failed''] w)
     else
       (0, put_out
             [''Parent process: My PID is '' @ decimal (sys_pid sy)
                @ '', My child's PID is '' @ decimal (sys_child sy) @ [NEWLINE],
              ''Parent process: waiting for child to complete...'' @ [NEWLINE],
              ''Parent process: child completed'' @ [NEWLINE]]
             (w\<lparr>w_forked := w_forked w @ [command]\<rparr>)))"

text \<open>The program and the argument strings the child passes to \<open>execvp\<close>.\<close>

definition child_execvp :: "string \<Rightarrow> fault + (string \<times> string list \<times> fault list)" where
  "child_execvp command =
    (let program = getProgramName command in
     case getArgs command of
       Inl f \<Rightarrow> Inl f
     | Inr (args, numArgs, b, viol) \<Rightarrow> Inr (program, token_strings args numArgs b, viol))"

text \<open>
  \<open>processCommand(command)\<close>: the value returned and the world after it. The result of
  \<open>strcmp\<close> is equality of the strings.
\<close>

definition processCommand :: "sys \<Rightarrow> string \<Rightarrow> world \<Rightarrow> fault + (int \<times> world)" where
  "processCommand sy command w =
    (if command = ''exit'' then Inr (-1, w)
     else
       let firstToken = getProgramName command in
       if firstToken = ''procread'' then
         (case getArgs command of
            Inl f \<Rightarrow> Inl f
          | Inr (args, numArgs, b, viol) \<Rightarrow>
              let w1 = put_viol viol w in
              if numArgs < 2 then Inr (1, put_err [''ERROR: file argument required''] w1)
              else if numArgs > 2 then
                Inr (1, put_err [''ERROR: only 1 argument is permitted''] w1)
              else
                (case arg_string args b 1 of
                   Inl f \<Rightarrow> Inl f
                 | Inr fileName \<Rightarrow> Inr (processProcread sy fileName w1)))
       else if firstToken = ''history'' then
         (case readHistory 10 (w_history w) of
            Inl f \<Rightarrow> Inl f
          | Inr r \<Rightarrow>
              let w1 = put_viol (hr_viol r) (put_err (hr_err r) w) in
              (case hr_entries r of
                 None \<Rightarrow> Inr (1, w1)
               | Some history \<Rightarrow>
                   (case hr_count r of
                      None \<Rightarrow> Inl Uninitialised
                    | Some numRead \<Rightarrow>
                        (case printHistory history (hr_heap r) numRead of
                           Inl f \<Rightarrow> Inl f
                         | Inr ls \<Rightarrow>
                             (case deallocateHistory history (hr_heap r) numRead [] of
                                Inl f \<Rightarrow> Inl f
                              | Inr (h1, viol1) \<Rightarrow>
                                  Inr (0, put_viol viol1 (put_out ls w1)))))))
       else if length command > 0 then
         (let w1 = (if command ! 0 = DQUOTE \<or> command ! 0 = SQUOTE
                    then put_err [''ERROR: invalid command''] w else w)
          in Inr (processSystemCommand sy command w1))
       else Inr (0, w))"

section \<open>shell.c: the command loop\<close>

text \<open>
  \<open>readCommand\<close> for the line \<open>readInput\<close> returned: the line goes to the history, is
  decoded, and the decoded command is trimmed. When \<open>unescape\<close> returns \<open>NULL\<close>, that
  \<open>NULL\<close> is passed to \<open>trim\<close>.
\<close>

definition readCommand :: "string \<Rightarrow> world \<Rightarrow> fault + (string option \<times> world)" where
  "readCommand line w =
    (let w1 = appendHistory line w;
         (command, w2) =
           (case unescape line of
              Inl (e, msgs) \<Rightarrow> (None, put_err msgs w1)
            | Inr bytes \<Rightarrow> (Some (c_str bytes), w1))
     in case trim command of
          Inl f \<Rightarrow> Inl f
        | Inr c \<Rightarrow> Inr (Some c, w2))"

definition writePrompt :: "sys \<Rightarrow> world \<Rightarrow> world" where
  "writePrompt sy w = put_out [sys_prompt sy] w"

text \<open>
  \<open>commandLoop\<close> over the lines that standard input still holds. At the end of the
  input \<open>readInput\<close> returns its buffer with nothing read into it, and \<open>readCommand\<close>
  uses it as a string.
\<close>

fun commandLoop :: "sys \<Rightarrow> string list \<Rightarrow> world \<Rightarrow> fault + world" where
  "commandLoop sy [] w = Inl Uninitialised"
| "commandLoop sy (line # lines) w =
    (case readCommand line (writePrompt sy w) of
       Inl f \<Rightarrow> Inl f
     | Inr (None, w1) \<Rightarrow> commandLoop sy lines w1
     | Inr (Some command, w1) \<Rightarrow>
         (case processCommand sy command w1 of
            Inl f \<Rightarrow> Inl f
          | Inr (r, w2) \<Rightarrow> if r < 0 then Inr w2 else commandLoop sy lines w2))"

text \<open>The world after \<open>clearHistory\<close> at startup, and a system for the examples.\<close>

definition start_world :: world where
  "start_world = \<lparr>w_out = [], w_err = [], w_history = Some [], w_forked = [], w_viol = []\<rparr>"

definition example_sys :: sys where
  "example_sys =
     \<lparr>sys_prompt = ''u@h $ '',
      sys_file = (\<lambda>path. if path = ''/proc/../../etc/passwd'' then Some ''root:x:0:0''
                          else None),
      sys_fork = True, sys_pid = 100, sys_child = 101\<rparr>"







text \<open>The history file after twelve commands and \<open>history\<close>, and the lines typed.\<close>

definition twelve_lines :: "string list" where
  "twelve_lines = map (\<lambda>s. s @ [NEWLINE])
     [''c1'', ''c2'', ''c3'', ''c4'', ''c5'', ''c6'', ''c7'', ''c8'', ''c9'', ''c10'',
      ''c11'', ''c12'', ''history'']"

text \<open>
  The array and the blocks that \<open>readHistory(10, ...)\<close> leaves for that file: the ten
  elements returned point to the blocks of the lines 3 to 12, of which the first eight
  have been freed.
\<close>

definition twelve_entries :: "slot list" where
  "twelve_entries = [Ptr 2, Ptr 3, Ptr 4, Ptr 5, Ptr 6, Ptr 7, Ptr 8, Ptr 9, Ptr 10, Ptr 11,
     NullPtr, NullPtr, NullPtr] @ replicate 7 Unset"

definition twelve_heap :: heap where
  "twelve_heap = [(''c1'', False), (''c2'', False), (''c3'', False), (''c4'', False),
     (''c5'', False), (''c6'', False), (''c7'', False), (''c8'', False), (''c9'', False),
     (''c10'', False), (''c11'', True), (''c12'', True), (''history'', False)]"

section \<open>Properties of the decoder\<close>

lemma unescape_body_length:
  assumes "deref str \<noteq> NUL" and "unescape_body str quoted out = Inr (str', quoted', out')"
  shows "length out' + length (c_str str') \<le> length out + length (c_str str)"
proof -
  note n1 = deref_not_NUL[OF assms(1)]
  show ?thesis
    using assms(2) n1
    by (auto simp: unescape_body_def Let_def split: if_splits option.splits
        dest!: is_octal_not_NUL hex_value_not_NUL deref_not_NUL)
qed

lemma unescape_loop_length:
  "unescape_loop str q acc = Inr out \<Longrightarrow> length out \<le> length acc + length (c_str str)"
proof (induction str q acc rule: unescape_loop.induct)
  case (1 str quoted out')
  show ?case
  proof (cases "deref str = NUL")
    case True
    with "1.prems" show ?thesis
      by (subst (asm) unescape_loop.simps) (auto split: if_splits)
  next
    case False
    from "1.prems" False obtain s' q' o' where
      b: "unescape_body str quoted out' = Inr (s', q', o')" and
      r: "unescape_loop s' q' o' = Inr out"
      by (subst (asm) unescape_loop.simps) (auto split: sum.splits)
    from "1.IH"[OF False b refl refl r]
    have "length out \<le> length o' + length (c_str s')" .
    with unescape_body_length[OF False b] show ?thesis by simp
  qed
qed

lemma length_c_str_le: "length (c_str bytes) \<le> length bytes"
  by (simp add: c_str_def length_takeWhile_le)

text \<open>
  C8. When \<open>unescape\<close> succeeds on a string of length \<open>len\<close> (\<open>strlen(str)\<close>, the bytes
  before the first zero byte), it has written at most \<open>len\<close> bytes before the final
  terminator, so the \<open>len + 1\<close> bytes allocated hold them, and the decoded string is at most
  as long as the input.
\<close>

theorem unescape_no_longer:
  "unescape str = Inr out \<Longrightarrow>
     length out \<le> length (c_str str) \<and> length (c_str out) \<le> length (c_str str)"
proof -
  assume "unescape str = Inr out"
  then have "length out \<le> length (c_str str)"
    using unescape_loop_length[of str NUL "[]" out] by (simp add: unescape_def)
  moreover have "length (c_str out) \<le> length out"
    by (rule length_c_str_le)
  ultimately show ?thesis by simp
qed

theorem unescape_no_longer_witness:
  "unescape [CHR ''l'', CHR ''s'', BSLASH, CHR ''t'', DQUOTE, CHR ''a'', CHR '' '', DQUOTE]
     = Inr [CHR ''l'', CHR ''s'', CHR 0x09, CHR ''a'', CHR '' '']
   \<and> length [CHR ''l'', CHR ''s'', CHR 0x09, CHR ''a'', CHR '' '']
     \<le> length (c_str [CHR ''l'', CHR ''s'', BSLASH, CHR ''t'', DQUOTE, CHR ''a'', CHR '' '', DQUOTE])"
proof -
  have h: "unescape [CHR ''l'', CHR ''s'', BSLASH, CHR ''t'', DQUOTE, CHR ''a'', CHR '' '', DQUOTE]
     = Inr [CHR ''l'', CHR ''s'', CHR 0x09, CHR ''a'', CHR '' '']"
    by code_simp
  from unescape_no_longer[OF h] h show ?thesis by simp
qed

lemma unescape_loop_quoted_backslash:
  assumes "quoted \<noteq> NUL" and "c \<noteq> NUL"
  shows "unescape_loop (BSLASH # c # rest) quoted out =
           unescape_loop rest quoted (out @ (if c = quoted then [c] else [BSLASH, c]))"
  using assms
  by (subst unescape_loop.simps)
     (simp add: unescape_body_def deref_def Let_def BSLASH_def NUL_def)

lemma unescape_loop_backslash_end:
  assumes "deref rest = NUL"
  shows "unescape_loop (BSLASH # rest) quoted out =
           Inl (UnterminatedEscape,
                [if quoted = NUL then ''shell error: illegal escape sequence''
                 else ''shell error: invalid escape sequence''])"
  using assms
  by (subst unescape_loop.simps)
     (simp add: unescape_body_def deref_def Let_def BSLASH_def NUL_def)

text \<open>
  C5, as the code has it. Inside a quote (\<open>quoted\<close> is the open quote character) a backslash
  followed by that quote character writes the quote character alone; a backslash followed
  by any other character, another backslash included, writes the backslash and then the
  character, so a pair of backslashes inside quotes stays a pair; a backslash followed by
  the end of the input is the error \<open>UnterminatedEscape\<close>, inside quotes and outside.
\<close>

theorem unescape_backslash_in_quotes:
  "quoted = SQUOTE \<or> quoted = DQUOTE \<Longrightarrow> c \<noteq> NUL \<Longrightarrow>
     (c = quoted \<longrightarrow>
        unescape_loop (BSLASH # c # rest) quoted out = unescape_loop rest quoted (out @ [c]))
   \<and> (c \<noteq> quoted \<longrightarrow>
        unescape_loop (BSLASH # c # rest) quoted out
          = unescape_loop rest quoted (out @ [BSLASH, c]))
   \<and> unescape_loop (BSLASH # BSLASH # rest) quoted out
          = unescape_loop rest quoted (out @ [BSLASH, BSLASH])
   \<and> (\<exists>msg. unescape_loop [BSLASH] quoted out = Inl (UnterminatedEscape, msg))
   \<and> (\<exists>msg. unescape_loop [BSLASH] NUL out = Inl (UnterminatedEscape, msg))"
proof -
  assume q': "quoted = SQUOTE \<or> quoted = DQUOTE" and c: "c \<noteq> NUL"
  from q' have q: "quoted \<noteq> NUL" and qb: "BSLASH \<noteq> quoted"
    by (auto simp: SQUOTE_def DQUOTE_def NUL_def BSLASH_def)
  have b: "BSLASH \<noteq> NUL" by (simp add: BSLASH_def NUL_def)
  have e: "deref [] = NUL" by (simp add: deref_def)
  show ?thesis
    using unescape_loop_quoted_backslash[OF q c, of rest out]
      unescape_loop_quoted_backslash[OF q b, of rest out]
      unescape_loop_backslash_end[OF e, of quoted out]
      unescape_loop_backslash_end[OF e, of NUL out] qb
    by auto
qed

theorem unescape_backslash_in_quotes_witness:
  "(DQUOTE = SQUOTE \<or> DQUOTE = DQUOTE) \<and> BSLASH \<noteq> NUL \<and> BSLASH \<noteq> DQUOTE
   \<and> unescape_loop [BSLASH, BSLASH, CHR ''a'', DQUOTE] DQUOTE []
      = unescape_loop [CHR ''a'', DQUOTE] DQUOTE [BSLASH, BSLASH]
   \<and> unescape_loop [CHR ''a'', DQUOTE] DQUOTE [BSLASH, BSLASH] = Inr [BSLASH, BSLASH, CHR ''a'']"
proof -
  have q: "DQUOTE = SQUOTE \<or> DQUOTE = DQUOTE" and c: "BSLASH \<noteq> NUL" and d: "BSLASH \<noteq> DQUOTE"
    by (simp_all add: DQUOTE_def NUL_def BSLASH_def)
  have r: "unescape_loop [CHR ''a'', DQUOTE] DQUOTE [BSLASH, BSLASH] = Inr [BSLASH, BSLASH, CHR ''a'']"
    by code_simp
  from unescape_backslash_in_quotes[OF q c, of "[CHR ''a'', DQUOTE]" "[]"] c d r
  show ?thesis by simp
qed

text \<open>
  The claim C5 as the specification words it fails: the line \<open>"\\"\<close> (a quote, two
  backslashes, a quote) decodes to two backslashes, not to one.
\<close>

theorem unescape_backslash_pair_counterexample:
  "unescape [DQUOTE, BSLASH, BSLASH, DQUOTE] = Inr [BSLASH, BSLASH]
   \<and> unescape [DQUOTE, BSLASH, BSLASH, DQUOTE] \<noteq> Inr [BSLASH]"
  by code_simp

section \<open>Properties of the tokenizer\<close>































section \<open>Properties of the history and of procread\<close>




















lemma put_viol_Nil: "put_viol [] w = w"
  by (simp add: put_viol_def)

lemma procread_args:
  "getArgs ''procread ../../etc/passwd''
     = Inr ((replicate 1000 Unset)[0 := Ptr 0, 1 := Ptr 9, 2 := NullPtr], 2,
            ''procread'' @ [NUL] @ ''../../etc/passwd'' @ [NUL], [])"
  "arg_string ((replicate 1000 Unset)[0 := Ptr 0, 1 := Ptr 9, 2 := NullPtr])
      (''procread'' @ [NUL] @ ''../../etc/passwd'' @ [NUL]) 1 = Inr (Some ''../../etc/passwd'')"
  "getArgs ''procread missingfile''
     = Inr ((replicate 1000 Unset)[0 := Ptr 0, 1 := Ptr 9, 2 := NullPtr], 2,
            ''procread'' @ [NUL] @ ''missingfile'' @ [NUL], [])"
  "arg_string ((replicate 1000 Unset)[0 := Ptr 0, 1 := Ptr 9, 2 := NullPtr])
      (''procread'' @ [NUL] @ ''missingfile'' @ [NUL]) 1 = Inr (Some ''missingfile'')"
  by code_simp+

lemma procread_first_token:
  "getProgramName ''procread ../../etc/passwd'' = ''procread''"
  "getProgramName ''procread missingfile'' = ''procread''"
  by code_simp+

lemma procread_dispatch:
  assumes "getProgramName command = ''procread''"
    and "getArgs command = Inr (args, 2, b, [])" and "arg_string args b 1 = Inr (Some name)"
  shows "processCommand sy command w = Inr (processProcread sy (Some name) w)"
proof -
  from assms(1) have "command \<noteq> ''exit''"
    by (auto simp: getProgramName_def isspace_def)
  then show ?thesis
    using assms by (simp add: processCommand_def put_viol_Nil)
qed

text \<open>
  C2, as the code has it. An argument that starts with \<open>/\<close> is rejected before anything
  is opened (the specification's \<open>InvalidPath\<close>). \<open>procread ../../etc/passwd\<close> is not
  rejected: the file \<open>/proc/../../etc/passwd\<close> is opened, and streamed when the open
  succeeds; only a failed open gives the error of a missing file (\<open>FileNotFound\<close>).
  \<open>procread missingfile\<close> gives that error when \<open>/proc/missingfile\<close> cannot be
  opened.
\<close>

theorem procread_paths:
  "(name \<noteq> [] \<and> hd name = CHR ''/'' \<longrightarrow>
      processProcread sy (Some name) w
        = (1, put_err [''ERROR: only relative file paths are supported''] w))
   \<and> processCommand sy ''procread ../../etc/passwd'' w
        = Inr (case sys_file sy ''/proc/../../etc/passwd'' of
                 None \<Rightarrow> (1, put_err [''ERROR: Process file not found''] w)
               | Some content \<Rightarrow> (0, put_out (map c_str (file_chunks 1024 [] content)) w))
   \<and> (sys_file sy ''/proc/missingfile'' = None \<longrightarrow>
        processCommand sy ''procread missingfile'' w
          = Inr (1, put_err [''ERROR: Process file not found''] w))"
proof -
  have a: "processProcread sy (Some name) w
        = (1, put_err [''ERROR: only relative file paths are supported''] w)"
    if "name \<noteq> []" "hd name = CHR ''/''"
    using that by (cases name) (auto simp: processProcread_def)
  have b: "processCommand sy ''procread ../../etc/passwd'' w
        = Inr (case sys_file sy ''/proc/../../etc/passwd'' of
                 None \<Rightarrow> (1, put_err [''ERROR: Process file not found''] w)
               | Some content \<Rightarrow> (0, put_out (map c_str (file_chunks 1024 [] content)) w))"
    unfolding procread_dispatch[OF procread_first_token(1) procread_args(1) procread_args(2)]
    by (simp add: processProcread_def put_viol_Nil split: option.splits)
  have c: "processCommand sy ''procread missingfile'' w
          = Inr (1, put_err [''ERROR: Process file not found''] w)"
    if "sys_file sy ''/proc/missingfile'' = None"
    unfolding procread_dispatch[OF procread_first_token(2) procread_args(3) procread_args(4)]
    using that by (simp add: processProcread_def put_viol_Nil)
  show ?thesis using a b c by blast
qed

theorem procread_paths_witness:
  "''/etc/passwd'' \<noteq> [] \<and> hd ''/etc/passwd'' = CHR ''/''
   \<and> processProcread example_sys (Some ''/etc/passwd'') start_world
        = (1, put_err [''ERROR: only relative file paths are supported''] start_world)
   \<and> sys_file example_sys ''/proc/missingfile'' = None
   \<and> processCommand example_sys ''procread missingfile'' start_world
          = Inr (1, put_err [''ERROR: Process file not found''] start_world)"
proof -
  have a: "''/etc/passwd'' \<noteq> [] \<and> hd ''/etc/passwd'' = CHR ''/''" by simp
  have b: "sys_file example_sys ''/proc/missingfile'' = None" by (simp add: example_sys_def)
  from procread_paths[of "''/etc/passwd''" example_sys start_world] a b
  show ?thesis by simp
qed


lemma twelve_read:
  "readHistory 10 (Some (concat twelve_lines))
     = Inr \<lparr>hr_entries = Some twelve_entries, hr_count = Some 10, hr_heap = twelve_heap,
            hr_viol = [], hr_err = []\<rparr>"
  by code_simp

lemma twelve_print: "printHistory twelve_entries twelve_heap 10 = Inl (UseAfterFree 2)"
  by code_simp

lemma twelve_live:
  "map (load_entry twelve_entries twelve_heap) [0..<10]
     = [Inl (UseAfterFree 2), Inl (UseAfterFree 3), Inl (UseAfterFree 4), Inl (UseAfterFree 5),
        Inl (UseAfterFree 6), Inl (UseAfterFree 7), Inl (UseAfterFree 8), Inl (UseAfterFree 9),
        Inr ''c11'', Inr ''c12'']"
  by code_simp

text \<open>
  C7, on the code. With twelve lines and then \<open>history\<close> in the file, the limiting loop
  of \<open>readHistory\<close> frees the blocks of the lines 1 to 10 while it moves the pointers
  to the lines 3 to 12 to the front. Of the ten entries returned only the last two
  (\<open>c11\<close>, \<open>c12\<close>) are live; \<open>printHistory\<close> loads the first entry from a freed
  block.
\<close>

theorem history_reads_freed_entries:
  "readHistory 10 (Some (concat twelve_lines))
     = Inr \<lparr>hr_entries = Some twelve_entries, hr_count = Some 10, hr_heap = twelve_heap,
            hr_viol = [], hr_err = []\<rparr>
   \<and> map (load_entry twelve_entries twelve_heap) [0..<10]
     = [Inl (UseAfterFree 2), Inl (UseAfterFree 3), Inl (UseAfterFree 4), Inl (UseAfterFree 5),
        Inl (UseAfterFree 6), Inl (UseAfterFree 7), Inl (UseAfterFree 8), Inl (UseAfterFree 9),
        Inr ''c11'', Inr ''c12'']
   \<and> processCommand example_sys ''history''
        (start_world\<lparr>w_history := Some (concat twelve_lines)\<rparr>) = Inl (UseAfterFree 2)"
proof -
  have f: "getProgramName ''history'' = ''history''" by code_simp
  have "processCommand example_sys ''history''
        (start_world\<lparr>w_history := Some (concat twelve_lines)\<rparr>) = Inl (UseAfterFree 2)"
    by (simp add: processCommand_def f start_world_def twelve_read twelve_print)
  with twelve_read twelve_live show ?thesis by simp
qed


text \<open>
  The claim C2 as the specification words it fails: with a file at
  \<open>/proc/../../etc/passwd\<close>, the command \<open>procread ../../etc/passwd\<close> returns 0, writes
  the file to standard output and nothing to standard error.
\<close>

theorem procread_traversal_counterexample:
  "processCommand example_sys ''procread ../../etc/passwd'' start_world
     = Inr (0, \<lparr>w_out = [''root:x:0:0''], w_err = [], w_history = Some [], w_forked = [],
                w_viol = []\<rparr>)"
  by code_simp

section \<open>Properties of the dispatcher and the loop\<close>

lemma quote_not_dispatched:
  assumes "c = DQUOTE \<or> c = SQUOTE"
  shows "c # cs \<noteq> ''exit''" and "getProgramName (c # cs) \<noteq> ''procread''"
    and "getProgramName (c # cs) \<noteq> ''history''"
  using assms by (auto simp: getProgramName_def isspace_def DQUOTE_def SQUOTE_def)

text \<open>
  C3, on the code. For a command that starts with a quote character \<open>processCommand\<close>
  writes \<open>ERROR: invalid command\<close> and then calls \<open>processSystemCommand\<close> all the same:
  when \<open>fork\<close> succeeds the command is handed to a child and 0 is returned.
\<close>

theorem leading_quote_still_spawns:
  "c = DQUOTE \<or> c = SQUOTE \<Longrightarrow> sys_fork sy \<Longrightarrow>
     \<exists>w'. processCommand sy (c # cs) w = Inr (0, w')
            \<and> w_err w' = w_err w @ [''ERROR: invalid command'']
            \<and> w_forked w' = w_forked w @ [c # cs]"
proof -
  assume a: "c = DQUOTE \<or> c = SQUOTE" and f: "sys_fork sy"
  show ?thesis
    using a f quote_not_dispatched[OF a, of cs]
    by (auto simp: processCommand_def Let_def processSystemCommand_def put_err_def put_out_def)
qed

theorem leading_quote_still_spawns_witness:
  "(DQUOTE = DQUOTE \<or> DQUOTE = SQUOTE) \<and> sys_fork example_sys
   \<and> (\<exists>w'. processCommand example_sys (DQUOTE # ''ls'') start_world = Inr (0, w')
            \<and> w_err w' = [''ERROR: invalid command'']
            \<and> w_forked w' = [DQUOTE # ''ls''])"
proof -
  have a: "DQUOTE = DQUOTE \<or> DQUOTE = SQUOTE" by simp
  have b: "sys_fork example_sys" by (simp add: example_sys_def)
  from leading_quote_still_spawns[OF a b, of "''ls''" start_world] a b
  show ?thesis by (simp add: start_world_def)
qed

lemma processCommand_status:
  assumes "processCommand sy command w = Inr (r, w')" and "command \<noteq> ''exit''"
  shows "r = 0 \<or> r = 1"
  using assms
  by (auto simp: processCommand_def Let_def processSystemCommand_def processProcread_def
      split: if_splits sum.splits prod.splits option.splits)

text \<open>
  C6, as the code has it. The command that is exactly \<open>exit\<close> returns \<open>-1\<close> and leaves
  the world as it is: nothing is forked. No other command returns a negative value, so
  the test is on the whole command and not on its first token. A line that decodes to
  \<open>exit\<close> ends \<open>commandLoop\<close> with the lines after it unread.
\<close>

theorem exit_exact_match:
  "processCommand sy ''exit'' w = Inr (-1, w)
   \<and> (processCommand sy command w = Inr (r, w') \<longrightarrow> (r < 0 \<longleftrightarrow> command = ''exit''))
   \<and> (readCommand line (writePrompt sy w) = Inr (Some ''exit'', w1) \<longrightarrow>
        commandLoop sy (line # lines) w = Inr w1 \<and> w_forked w1 = w_forked w)"
proof -
  have e: "processCommand sy ''exit'' w0 = Inr (-1, w0)" for w0
    by (simp add: processCommand_def)
  have s: "r < 0 \<longleftrightarrow> command = ''exit''" if "processCommand sy command w = Inr (r, w')"
    using that processCommand_status[OF that] e[of w] by (cases "command = ''exit''") auto
  have f: "w_forked w1 = w_forked w"
    if "readCommand line (writePrompt sy w) = Inr (Some ''exit'', w1)"
    using that
    by (auto simp: readCommand_def Let_def appendHistory_def writePrompt_def put_out_def
        put_err_def split: sum.splits prod.splits option.splits)
  show ?thesis using e s f by (auto simp: e)
qed

theorem exit_exact_match_witness:
  "readCommand (''exit'' @ [NEWLINE]) (writePrompt example_sys start_world)
     = Inr (Some ''exit'', \<lparr>w_out = [''u@h $ ''], w_err = [],
              w_history = Some (''exit'' @ [NEWLINE]), w_forked = [], w_viol = []\<rparr>)
   \<and> commandLoop example_sys [''exit'' @ [NEWLINE], ''ls'' @ [NEWLINE]] start_world
     = Inr \<lparr>w_out = [''u@h $ ''], w_err = [],
              w_history = Some (''exit'' @ [NEWLINE]), w_forked = [], w_viol = []\<rparr>"
proof -
  have h: "readCommand (''exit'' @ [NEWLINE]) (writePrompt example_sys start_world)
     = Inr (Some ''exit'', \<lparr>w_out = [''u@h $ ''], w_err = [],
              w_history = Some (''exit'' @ [NEWLINE]), w_forked = [], w_viol = []\<rparr>)"
    by code_simp
  from exit_exact_match[of example_sys start_world "''exit''" "-1" start_world
      "''exit'' @ [NEWLINE]" _ "[''ls'' @ [NEWLINE]]"] h
  show ?thesis by simp
qed

text \<open>
  The claim C6 as the specification words it fails: the first token of \<open>exit 1\<close> is
  \<open>exit\<close>, and the command is handed to a child as an external command; the loop goes on.
\<close>

theorem exit_with_argument_counterexample:
  "getProgramName ''exit 1'' = ''exit''
   \<and> processCommand example_sys ''exit 1'' start_world
      = Inr (0, \<lparr>w_out = [''Parent process: My PID is 100, My child's PID is 101'' @ [NEWLINE],
              ''Parent process: waiting for child to complete...'' @ [NEWLINE],
              ''Parent process: child completed'' @ [NEWLINE]], w_err = [],
              w_history = Some [], w_forked = [''exit 1''], w_viol = []\<rparr>)"
  by code_simp

text \<open>
  C1, on the code. When \<open>unescape\<close> fails, \<open>readCommand\<close> passes its \<open>NULL\<close> to \<open>trim\<close>,
  which loads through it: the run ends there, before \<open>commandLoop\<close> can test the command
  and go to the next prompt.
\<close>

theorem decode_failure_ends_shell:
  "unescape line = Inl (e, msgs) \<Longrightarrow>
     readCommand line w = Inl NullPointer
     \<and> commandLoop sy (line # lines) w = Inl NullPointer"
proof -
  assume u: "unescape line = Inl (e, msgs)"
  have r: "readCommand line w0 = Inl NullPointer" for w0
    using u by (simp add: readCommand_def trim_def Let_def)
  have "commandLoop sy (line # lines) w = Inl NullPointer"
    by (simp add: r)
  with r show ?thesis by simp
qed

theorem decode_failure_ends_shell_witness:
  "unescape (DQUOTE # ''abc'' @ [NEWLINE])
     = Inl (UnterminatedQuote, [''shell error: unterminated quote''])
   \<and> commandLoop example_sys [DQUOTE # ''abc'' @ [NEWLINE], ''exit'' @ [NEWLINE]] start_world
     = Inl NullPointer"
proof -
  have h: "unescape (DQUOTE # ''abc'' @ [NEWLINE])
     = Inl (UnterminatedQuote, [''shell error: unterminated quote''])"
    by code_simp
  from decode_failure_ends_shell[OF h, of start_world example_sys "[''exit'' @ [NEWLINE]]"] h
  show ?thesis by simp
qed

lemma unescape_octal_failure_silent:
  "unescape (BSLASH # ''18'' @ [NEWLINE]) = Inl (InvalidOctalEscape, [])"
  by code_simp

end
